theory Spec2Isabelle
  imports Complex_Main
begin

section \<open>Monitoring NLP endpoints with FastAPI: the tutorial application\<close>

text \<open>
  The source is the notebook \<^verbatim>\<open>monitor_endpoints with_fastapi.ipynb\<close>: three request
  handlers (\<^verbatim>\<open>predict_transformers\<close>, \<^verbatim>\<open>predict_spacy\<close>, \<^verbatim>\<open>root\<close>), two record
  mappers (\<^verbatim>\<open>text2records\<close>, \<^verbatim>\<open>token2records\<close>) and the statements that register
  routes and logging middleware on the application object, once cell by cell and once
  more in the appendix \<^verbatim>\<open>main.py\<close>.

  The inference providers (\<^verbatim>\<open>transformers_pipeline\<close>, \<^verbatim>\<open>spacy_pipeline\<close>) and the
  library mappers (\<^verbatim>\<open>text_classification_mapper\<close>, \<^verbatim>\<open>token_classification_mapper\<close>)
  are third-party objects bound to module-level names; every function that calls one
  takes it as its first parameter here. Python strings are lists of characters, one
  element per code point, so that \<open>length\<close> is Python's \<^verbatim>\<open>len\<close>; Python integers are
  \<open>int\<close>; the scores, which the code only copies, are \<open>real\<close>.
\<close>

subsection \<open>Text classification\<close>

text \<open>
  One element \<^verbatim>\<open>p\<close> of a raw prediction: the dict-like the handler reads with
  \<^verbatim>\<open>p["label"]\<close> and \<^verbatim>\<open>p["score"]\<close>.
\<close>

record label_score =
  label :: string
  score :: real

text \<open>The dict the handler builds for one input: keys \<^verbatim>\<open>"labels"\<close> and \<^verbatim>\<open>"scores"\<close>.\<close>

record classification =
  labels :: "string list"
  scores :: "real list"

text \<open>
  Cell 20:
  \<^verbatim>\<open>
  argilla_format = [
      {
          "labels": [p["label"] for p in prediction],
          "scores": [p["score"] for p in prediction],
      }
      for prediction in predictions
  ]
  \<close>
\<close>

definition argilla_format :: "label_score list list \<Rightarrow> classification list" where
  "argilla_format predictions =
     [\<lparr>labels = [label p. p \<leftarrow> prediction],
       scores = [score p. p \<leftarrow> prediction]\<rparr>.
      prediction \<leftarrow> predictions]"

text \<open>
  Cell 22 (and the appendix):
  \<^verbatim>\<open>
  @app.post("/sentiment/")
  def predict_transformers(batch: List[str]):
      predictions = transformers_pipeline(batch)
      return [
          {
              "labels": [p["label"] for p in prediction],
              "scores": [p["score"] for p in prediction],
          }
          for prediction in predictions
      ]
  \<close>
\<close>

definition predict_transformers ::
  "(string list \<Rightarrow> label_score list list) \<Rightarrow> string list \<Rightarrow> classification list" where
  "predict_transformers transformers_pipeline batch =
     (let predictions = transformers_pipeline batch
      in [\<lparr>labels = [label p. p \<leftarrow> prediction],
            scores = [score p. p \<leftarrow> prediction]\<rparr>.
           prediction \<leftarrow> predictions])"

text \<open>
  The output printed under cell 17 for \<^verbatim>\<open>batch = ["I really like argilla!"]\<close>:
  \<^verbatim>\<open>
  [[{'label': 'NEGATIVE', 'score': 0.0029897126369178295},
    {'label': 'POSITIVE', 'score': 0.9970102310180664}]]
  \<close>
  The scores are the printed decimals, taken as exact reals.
\<close>

definition example_batch :: "string list" where
  "example_batch = [''I really like argilla!'']"

definition example_predictions :: "label_score list list" where
  "example_predictions =
     [[\<lparr>label = ''NEGATIVE'', score = 0.0029897126369178295\<rparr>,
       \<lparr>label = ''POSITIVE'', score = 0.9970102310180664\<rparr>]]"

text \<open>
  A batch of two texts and a raw prediction for each: the first as in the response
  printed under cell 33 for \<^verbatim>\<open>"I like Argilla"\<close>, the second as under cell 17.
\<close>

definition two_text_batch :: "string list" where
  "two_text_batch = [''I like Argilla'', ''I really like argilla!'']"

definition two_text_predictions :: "label_score list list" where
  "two_text_predictions =
     [[\<lparr>label = ''NEGATIVE'', score = 0.8717259168624878\<rparr>,
       \<lparr>label = ''POSITIVE'', score = 0.128274068236351\<rparr>],
      [\<lparr>label = ''NEGATIVE'', score = 0.0029897126369178295\<rparr>,
       \<lparr>label = ''POSITIVE'', score = 0.9970102310180664\<rparr>]]"

subsection \<open>Named entities\<close>

text \<open>
  What the handler reads of a spaCy span (\<^verbatim>\<open>ent.label_\<close>, \<^verbatim>\<open>ent.start_char\<close>,
  \<^verbatim>\<open>ent.end_char\<close>) and of a spaCy document (\<^verbatim>\<open>doc.ents\<close>).
\<close>

record span =
  span_label :: string
  start_char :: int
  end_char :: int

record doc =
  ents :: "span list"

text \<open>
  The dicts the handler builds: an entity with keys \<^verbatim>\<open>"label"\<close>, \<^verbatim>\<open>"start"\<close>,
  \<^verbatim>\<open>"end"\<close>, and a prediction with keys \<^verbatim>\<open>"text"\<close> and \<^verbatim>\<open>"entities"\<close>.
\<close>

record entity =
  entity_label :: string
  entity_start :: int
  entity_end :: int

record ner_prediction =
  prediction_text :: string
  prediction_entities :: "entity list"

text \<open>
  Cell 26 (and the appendix):
  \<^verbatim>\<open>
  @app.post("/ner/")
  def predict_spacy(batch: List[str]):
      predictions = []
      for text in batch:
          doc = spacy_pipeline(text)  # spaCy Doc creation
          # Entity annotations
          entities = [
              {"label": ent.label_, "start": ent.start_char, "end": ent.end_char}
              for ent in doc.ents
          ]

          prediction = {
              "text": text,
              "entities": entities,
          }
          predictions.append(prediction)
      return predictions
  \<close>
  The \<^verbatim>\<open>for\<close> loop is the recursion over the rest of the batch, with the list
  \<^verbatim>\<open>predictions\<close> as accumulator.
\<close>

fun predict_spacy_loop ::
  "(string \<Rightarrow> doc) \<Rightarrow> string list \<Rightarrow> ner_prediction list \<Rightarrow> ner_prediction list" where
  "predict_spacy_loop spacy_pipeline [] predictions = predictions"
| "predict_spacy_loop spacy_pipeline (text # batch) predictions =
     (let doc = spacy_pipeline text;
          entities = [\<lparr>entity_label = span_label ent,
                        entity_start = start_char ent,
                        entity_end = end_char ent\<rparr>.
                      ent \<leftarrow> ents doc];
          prediction = \<lparr>prediction_text = text, prediction_entities = entities\<rparr>
      in predict_spacy_loop spacy_pipeline batch (predictions @ [prediction]))"

definition predict_spacy :: "(string \<Rightarrow> doc) \<Rightarrow> string list \<Rightarrow> ner_prediction list" where
  "predict_spacy spacy_pipeline batch = predict_spacy_loop spacy_pipeline batch []"

subsection \<open>Health check\<close>

text \<open>
  Cell 28:
  \<^verbatim>\<open>
  @app.get("/")
  def root():
      return {"message": "alive"}
  \<close>
  The dict is the list of its items.
\<close>

definition root_endpoint :: "(string \<times> string) list" where
  "root_endpoint = [(''message'', ''alive'')]"

subsection \<open>Record mappers\<close>

text \<open>
  Cells 24 and 26:
  \<^verbatim>\<open>
  def text2records(batch: List[str], outputs: List[dict]):
      return [
          text_classification_mapper(data, prediction)
          for data, prediction in zip(batch, outputs)
      ]

  def token2records(batch: List[str], outputs: List[dict]):
      return [
          token_classification_mapper(data, prediction)
          for data, prediction in zip(batch, outputs)
      ]
  \<close>
\<close>

definition text2records :: "('a \<Rightarrow> 'b \<Rightarrow> 'r) \<Rightarrow> 'a list \<Rightarrow> 'b list \<Rightarrow> 'r list" where
  "text2records text_classification_mapper batch outputs =
     [text_classification_mapper data prediction.
      (data, prediction) \<leftarrow> zip batch outputs]"

definition token2records :: "('a \<Rightarrow> 'b \<Rightarrow> 'r) \<Rightarrow> 'a list \<Rightarrow> 'b list \<Rightarrow> 'r list" where
  "token2records token_classification_mapper batch outputs =
     [token_classification_mapper data prediction.
      (data, prediction) \<leftarrow> zip batch outputs]"

subsection \<open>The application object\<close>

text \<open>
  \<^verbatim>\<open>app = FastAPI()\<close> collects routes (\<^verbatim>\<open>@app.post(path)\<close>, \<^verbatim>\<open>@app.get(path)\<close>) and
  middleware registrations (\<^verbatim>\<open>app.add_middleware(ArgillaLogHTTPMiddleware, ...)\<close>).
  The decorated functions and the mappers are referred to by name.
\<close>

datatype http_method = GET | POST

datatype endpoint = Predict_transformers | Predict_spacy | Root

datatype mapper = Text2records | Token2records

record route =
  route_method :: http_method
  route_path :: string
  route_endpoint :: endpoint

record middleware =
  api_endpoint :: string
  dataset :: string
  records_mapper :: mapper

record fastapi =
  routes :: "route list"
  user_middleware :: "middleware list"

definition FastAPI :: fastapi where
  "FastAPI = \<lparr>routes = [], user_middleware = []\<rparr>"

definition app_post :: "string \<Rightarrow> endpoint \<Rightarrow> fastapi \<Rightarrow> fastapi" where
  "app_post path f app =
     app\<lparr>routes := routes app @
       [\<lparr>route_method = POST, route_path = path, route_endpoint = f\<rparr>]\<rparr>"

definition app_get :: "string \<Rightarrow> endpoint \<Rightarrow> fastapi \<Rightarrow> fastapi" where
  "app_get path f app =
     app\<lparr>routes := routes app @
       [\<lparr>route_method = GET, route_path = path, route_endpoint = f\<rparr>]\<rparr>"

definition app_add_middleware :: "string \<Rightarrow> string \<Rightarrow> mapper \<Rightarrow> fastapi \<Rightarrow> fastapi" where
  "app_add_middleware e d m app =
     app\<lparr>user_middleware := user_middleware app @
       [\<lparr>api_endpoint = e, dataset = d, records_mapper = m\<rparr>]\<rparr>"

text \<open>A script is the list of its statements, run in order on the fresh application.\<close>

definition run_script :: "(fastapi \<Rightarrow> fastapi) list \<Rightarrow> fastapi" where
  "run_script stmts = foldl (\<lambda>app stmt. stmt app) FastAPI stmts"

text \<open>The application as the notebook builds it, cells 10, 22, 24, 26 and 28.\<close>

definition notebook_app :: fastapi where
  "notebook_app = run_script
     [app_post ''/sentiment/'' Predict_transformers,
      app_add_middleware ''/transformers/'' ''monitoring_transformers'' Text2records,
      app_add_middleware ''/spacy/'' ''monitoring_spacy'' Token2records,
      app_post ''/ner/'' Predict_spacy,
      app_get ''/'' Root]"

text \<open>The application of the appendix \<^verbatim>\<open>main.py\<close>, cell 36.\<close>

definition main_app :: fastapi where
  "main_app = run_script
     [app_post ''/sentiment/'' Predict_transformers,
      app_add_middleware ''/transformers/'' ''monitoring_transformers'' Text2records,
      app_post ''/ner/'' Predict_spacy,
      app_add_middleware ''/ner/'' ''monitoring_spacy'' Token2records,
      app_add_middleware ''/sentiment/'' ''monitoring_transformers'' Text2records,
      app_get ''/'' Root]"

text \<open>
  Serving a request: the first route with the request's method and path is called on
  the request body.
\<close>

datatype response =
  Sentiment_response "classification list"
| Ner_response "ner_prediction list"
| Root_response "(string \<times> string) list"

fun call_endpoint ::
  "(string list \<Rightarrow> label_score list list) \<Rightarrow> (string \<Rightarrow> doc) \<Rightarrow> endpoint \<Rightarrow> string list
   \<Rightarrow> response" where
  "call_endpoint tp sp Predict_transformers batch =
     Sentiment_response (predict_transformers tp batch)"
| "call_endpoint tp sp Predict_spacy batch = Ner_response (predict_spacy sp batch)"
| "call_endpoint tp sp Root batch = Root_response root_endpoint"

definition serve ::
  "fastapi \<Rightarrow> (string list \<Rightarrow> label_score list list) \<Rightarrow> (string \<Rightarrow> doc) \<Rightarrow>
   http_method \<Rightarrow> string \<Rightarrow> string list \<Rightarrow> response option" where
  "serve app tp sp m path batch =
     (case find (\<lambda>r. route_method r = m \<and> route_path r = path) (routes app) of
        None \<Rightarrow> None
      | Some r \<Rightarrow> Some (call_endpoint tp sp (route_endpoint r) batch))"

text \<open>The paths of the prediction endpoints an application serves.\<close>

definition prediction_paths :: "fastapi \<Rightarrow> string list" where
  "prediction_paths app = [route_path r. r \<leftarrow> routes app, route_endpoint r \<noteq> Root]"

text \<open>The registrations whose \<^verbatim>\<open>api_endpoint\<close> is not the path of a prediction endpoint.\<close>

definition unserved_registrations :: "fastapi \<Rightarrow> middleware list" where
  "unserved_registrations app =
     [mw. mw \<leftarrow> user_middleware app, api_endpoint mw \<notin> set (prediction_paths app)]"

subsection \<open>Character offsets\<close>





section \<open>Properties\<close>

subsection \<open>Shared facts\<close>

lemma predict_transformers_argilla_format:
  "predict_transformers transformers_pipeline batch =
   argilla_format (transformers_pipeline batch)"
  by (simp add: predict_transformers_def argilla_format_def)

lemma argilla_format_map:
  "argilla_format predictions =
   map (\<lambda>prediction. \<lparr>labels = map label prediction, scores = map score prediction\<rparr>)
     predictions"
  by (simp add: argilla_format_def)

lemma predict_spacy_loop_map:
  "predict_spacy_loop spacy_pipeline batch predictions =
   predictions @
   map (\<lambda>text. \<lparr>prediction_text = text,
                 prediction_entities =
                   map (\<lambda>ent. \<lparr>entity_label = span_label ent,
                                entity_start = start_char ent,
                                entity_end = end_char ent\<rparr>)
                     (ents (spacy_pipeline text))\<rparr>) batch"
  by (induction batch arbitrary: predictions) simp_all

lemma predict_spacy_map:
  "predict_spacy spacy_pipeline batch =
   map (\<lambda>text. \<lparr>prediction_text = text,
                 prediction_entities =
                   map (\<lambda>ent. \<lparr>entity_label = span_label ent,
                                entity_start = start_char ent,
                                entity_end = end_char ent\<rparr>)
                     (ents (spacy_pipeline text))\<rparr>) batch"
  by (simp add: predict_spacy_def predict_spacy_loop_map)

lemma notebook_app_eval:
  "routes notebook_app =
     [\<lparr>route_method = POST, route_path = ''/sentiment/'', route_endpoint = Predict_transformers\<rparr>,
      \<lparr>route_method = POST, route_path = ''/ner/'', route_endpoint = Predict_spacy\<rparr>,
      \<lparr>route_method = GET, route_path = ''/'', route_endpoint = Root\<rparr>]"
  "user_middleware notebook_app =
     [\<lparr>api_endpoint = ''/transformers/'', dataset = ''monitoring_transformers'',
       records_mapper = Text2records\<rparr>,
      \<lparr>api_endpoint = ''/spacy/'', dataset = ''monitoring_spacy'',
       records_mapper = Token2records\<rparr>]"
  by (simp_all add: notebook_app_def run_script_def FastAPI_def app_post_def app_get_def
      app_add_middleware_def)

lemma main_app_eval:
  "routes main_app =
     [\<lparr>route_method = POST, route_path = ''/sentiment/'', route_endpoint = Predict_transformers\<rparr>,
      \<lparr>route_method = POST, route_path = ''/ner/'', route_endpoint = Predict_spacy\<rparr>,
      \<lparr>route_method = GET, route_path = ''/'', route_endpoint = Root\<rparr>]"
  "user_middleware main_app =
     [\<lparr>api_endpoint = ''/transformers/'', dataset = ''monitoring_transformers'',
       records_mapper = Text2records\<rparr>,
      \<lparr>api_endpoint = ''/ner/'', dataset = ''monitoring_spacy'',
       records_mapper = Token2records\<rparr>,
      \<lparr>api_endpoint = ''/sentiment/'', dataset = ''monitoring_transformers'',
       records_mapper = Text2records\<rparr>]"
  by (simp_all add: main_app_def run_script_def FastAPI_def app_post_def app_get_def
      app_add_middleware_def)

subsection \<open>The health check\<close>

text \<open>
  C6. \<^verbatim>\<open>GET /\<close> returns the JSON object \<^verbatim>\<open>{"message": "alive"}\<close>: the handler
  \<^verbatim>\<open>root\<close> returns the dict with the single item \<^verbatim>\<open>"message": "alive"\<close>, and in the
  notebook's application as in the appendix's a \<^verbatim>\<open>GET\<close> request for \<^verbatim>\<open>/\<close> is answered
  with it, whatever the providers and the request body are.
\<close>

theorem root_alive:
  "root_endpoint = [(''message'', ''alive'')] \<and>
   serve notebook_app tp sp GET ''/'' body = Some (Root_response [(''message'', ''alive'')]) \<and>
   serve main_app tp sp GET ''/'' body = Some (Root_response [(''message'', ''alive'')])"
  by (simp add: serve_def notebook_app_eval main_app_eval root_endpoint_def)

subsection \<open>The record mappers\<close>

text \<open>
  C9. For every batch and every list of outputs, of equal length or not,
  \<^verbatim>\<open>text2records\<close> and \<^verbatim>\<open>token2records\<close> return exactly
  \<open>min (length batch) (length outputs)\<close> records, the k-th one being the library mapper's
  record for the k-th input and the k-th output: \<^verbatim>\<open>zip\<close> drops the surplus of the longer
  list and no branch of either function reports it.
\<close>

theorem mappers_zip_min:
  "length (text2records f batch outputs) = min (length batch) (length outputs) \<and>
   length (token2records g batch outputs) = min (length batch) (length outputs) \<and>
   text2records f batch outputs =
     map2 f (take (min (length batch) (length outputs)) batch)
            (take (min (length batch) (length outputs)) outputs) \<and>
   token2records g batch outputs =
     map2 g (take (min (length batch) (length outputs)) batch)
            (take (min (length batch) (length outputs)) outputs)"
proof -
  let ?n = "min (length batch) (length outputs)"
  have z: "zip (take ?n batch) (take ?n outputs) = zip batch outputs"
    by (simp add: take_zip [symmetric])
  show ?thesis
    by (simp add: text2records_def token2records_def z)
qed

subsection \<open>The logged routes\<close>

text \<open>
  C1. Every middleware registration should name, as its \<^verbatim>\<open>api_endpoint\<close>, the path of
  a prediction endpoint that the application serves. Both applications serve the
  prediction endpoints \<^verbatim>\<open>/sentiment/\<close> and \<^verbatim>\<open>/ner/\<close>. In the notebook's application the
  two registrations name \<^verbatim>\<open>/transformers/\<close> and \<^verbatim>\<open>/spacy/\<close>, neither of which is
  served; in the appendix's application the registrations for \<^verbatim>\<open>/ner/\<close> and
  \<^verbatim>\<open>/sentiment/\<close> are served and the one for \<^verbatim>\<open>/transformers/\<close> is not.
\<close>

theorem logged_route_not_served:
  "prediction_paths notebook_app = [''/sentiment/'', ''/ner/''] \<and>
   unserved_registrations notebook_app =
     [\<lparr>api_endpoint = ''/transformers/'', dataset = ''monitoring_transformers'',
       records_mapper = Text2records\<rparr>,
      \<lparr>api_endpoint = ''/spacy/'', dataset = ''monitoring_spacy'',
       records_mapper = Token2records\<rparr>] \<and>
   prediction_paths main_app = [''/sentiment/'', ''/ner/''] \<and>
   unserved_registrations main_app =
     [\<lparr>api_endpoint = ''/transformers/'', dataset = ''monitoring_transformers'',
       records_mapper = Text2records\<rparr>]"
  by (simp add: unserved_registrations_def prediction_paths_def notebook_app_eval
      main_app_eval)

subsection \<open>The sentiment handler\<close>

text \<open>
  C2. For every batch, if the classification provider returns one raw prediction per
  input, \<^verbatim>\<open>predict_transformers\<close> returns as many records as the batch has inputs, and
  its i-th record holds the labels and the scores of the provider's i-th prediction,
  the one for the i-th input.
\<close>

theorem predict_transformers_length_order:
  assumes "length (transformers_pipeline batch) = length batch"
  shows "length (predict_transformers transformers_pipeline batch) = length batch \<and>
         (\<forall>i<length batch.
            predict_transformers transformers_pipeline batch ! i =
              \<lparr>labels = map label (transformers_pipeline batch ! i),
               scores = map score (transformers_pipeline batch ! i)\<rparr>)"
  using assms by (simp add: predict_transformers_def)

theorem predict_transformers_length_order_witness:
  "length ((\<lambda>batch. two_text_predictions) two_text_batch) = length two_text_batch \<and>
   length (predict_transformers (\<lambda>batch. two_text_predictions) two_text_batch) = 2 \<and>
   predict_transformers (\<lambda>batch. two_text_predictions) two_text_batch ! 0 =
     \<lparr>labels = [''NEGATIVE'', ''POSITIVE''],
      scores = [0.8717259168624878, 0.128274068236351]\<rparr> \<and>
   predict_transformers (\<lambda>batch. two_text_predictions) two_text_batch ! 1 =
     \<lparr>labels = [''NEGATIVE'', ''POSITIVE''],
      scores = [0.0029897126369178295, 0.9970102310180664]\<rparr>"
proof -
  let ?tp = "\<lambda>batch :: string list. two_text_predictions"
  have h: "length (?tp two_text_batch) = length two_text_batch"
    by (simp add: two_text_predictions_def two_text_batch_def)
  have n: "length two_text_batch = 2"
    by (simp add: two_text_batch_def)
  note t = predict_transformers_length_order [OF h]
  from t n have l: "length (predict_transformers ?tp two_text_batch) = 2"
    by simp
  from t n
  have r0: "predict_transformers ?tp two_text_batch ! 0 =
              \<lparr>labels = map label (two_text_predictions ! 0),
               scores = map score (two_text_predictions ! 0)\<rparr>"
    by simp
  from t n
  have r1: "predict_transformers ?tp two_text_batch ! 1 =
              \<lparr>labels = map label (two_text_predictions ! 1),
               scores = map score (two_text_predictions ! 1)\<rparr>"
    by simp
  from h l r0 r1 show ?thesis
    by (simp add: two_text_predictions_def)
qed

text \<open>
  C4. In every record that \<^verbatim>\<open>predict_transformers\<close> returns, the list of labels and
  the list of scores have the same length.
\<close>

theorem labels_scores_same_length:
  assumes "r \<in> set (predict_transformers transformers_pipeline batch)"
  shows "length (labels r) = length (scores r)"
  using assms by (auto simp: predict_transformers_def)

theorem labels_scores_same_length_witness:
  "\<lparr>labels = [''NEGATIVE'', ''POSITIVE''],
    scores = [0.0029897126369178295, 0.9970102310180664]\<rparr>
     \<in> set (predict_transformers (\<lambda>batch. example_predictions) example_batch) \<and>
   length (labels \<lparr>labels = [''NEGATIVE'', ''POSITIVE''],
                   scores = [0.0029897126369178295, 0.9970102310180664 :: real]\<rparr>) =
   length (scores \<lparr>labels = [''NEGATIVE'', ''POSITIVE''],
                   scores = [0.0029897126369178295, 0.9970102310180664 :: real]\<rparr>)"
proof -
  have m: "\<lparr>labels = [''NEGATIVE'', ''POSITIVE''],
             scores = [0.0029897126369178295, 0.9970102310180664]\<rparr>
           \<in> set (predict_transformers (\<lambda>batch. example_predictions) example_batch)"
    by (simp add: predict_transformers_def example_predictions_def)
  from m labels_scores_same_length [OF m] show ?thesis by blast
qed

text \<open>
  C10. In every record that \<^verbatim>\<open>predict_transformers\<close> returns, labels and scores are
  aligned: the k-th record stems from the provider's k-th prediction, and at every
  index i of its labels, the label and the score are those of the i-th element of
  that prediction.
\<close>

theorem labels_scores_aligned:
  assumes "k < length (predict_transformers transformers_pipeline batch)"
    and "i < length (labels (predict_transformers transformers_pipeline batch ! k))"
  shows "k < length (transformers_pipeline batch) \<and>
         i < length (transformers_pipeline batch ! k) \<and>
         labels (predict_transformers transformers_pipeline batch ! k) ! i =
           label (transformers_pipeline batch ! k ! i) \<and>
         scores (predict_transformers transformers_pipeline batch ! k) ! i =
           score (transformers_pipeline batch ! k ! i)"
  using assms by (simp add: predict_transformers_def)

theorem labels_scores_aligned_witness:
  "(0::nat) < length (predict_transformers (\<lambda>batch. example_predictions) example_batch) \<and>
   (1::nat) <
     length (labels (predict_transformers (\<lambda>batch. example_predictions) example_batch ! 0)) \<and>
   labels (predict_transformers (\<lambda>batch. example_predictions) example_batch ! 0) ! 1 =
     ''POSITIVE'' \<and>
   scores (predict_transformers (\<lambda>batch. example_predictions) example_batch ! 0) ! 1 =
     0.9970102310180664"
  using labels_scores_aligned [of 0 "\<lambda>batch. example_predictions" example_batch 1]
  by (simp add: example_predictions_def predict_transformers_def)

text \<open>
  C8. When the provider answers the batch \<^verbatim>\<open>["I really like argilla!"]\<close> with the
  prediction printed in the notebook, the adapter yields exactly one record; its
  labels are \<^verbatim>\<open>["NEGATIVE", "POSITIVE"]\<close> and its scores are two numbers whose sum
  differs from 1 by less than one millionth.
\<close>

theorem example_batch_record:
  assumes "transformers_pipeline example_batch = example_predictions"
  shows "predict_transformers transformers_pipeline example_batch =
           [\<lparr>labels = [''NEGATIVE'', ''POSITIVE''],
             scores = [0.0029897126369178295, 0.9970102310180664]\<rparr>] \<and>
         argilla_format example_predictions =
           predict_transformers transformers_pipeline example_batch \<and>
         length (scores (hd (predict_transformers transformers_pipeline example_batch))) = 2 \<and>
         \<bar>sum_list (scores (hd (predict_transformers transformers_pipeline example_batch))) - 1\<bar>
           < 1 / 10 ^ 6"
  using assms
  by (simp add: predict_transformers_def argilla_format_def example_predictions_def)

theorem example_batch_record_witness:
  "(\<lambda>batch. example_predictions) example_batch = example_predictions \<and>
   predict_transformers (\<lambda>batch. example_predictions) example_batch =
     [\<lparr>labels = [''NEGATIVE'', ''POSITIVE''],
       scores = [0.0029897126369178295, 0.9970102310180664]\<rparr>]"
  using example_batch_record [of "\<lambda>batch. example_predictions"] by simp

subsection \<open>The entity handler\<close>

text \<open>
  C3. For every batch, \<^verbatim>\<open>predict_spacy\<close> returns one record per input string, in the
  order of the batch; the record's text is the input string, and its entities are
  the provider's spans for that string, in order, each as its label, its start
  offset and its end offset.
\<close>

theorem predict_spacy_records:
  "length (predict_spacy spacy_pipeline batch) = length batch \<and>
   predict_spacy spacy_pipeline batch =
     map (\<lambda>text. \<lparr>prediction_text = text,
                   prediction_entities =
                     map (\<lambda>ent. \<lparr>entity_label = span_label ent,
                                  entity_start = start_char ent,
                                  entity_end = end_char ent\<rparr>)
                       (ents (spacy_pipeline text))\<rparr>) batch"
  by (simp add: predict_spacy_map)



end
